theory Spec2Isabelle
  imports Main
begin

section \<open>Callback declarations and the ordering resolver\<close>

text \<open>
  The Go type \<^verbatim>\<open>callback\<close>.  A handler is a value of an arbitrary type \<open>'h\<close>;
  \<open>None\<close> stands for Go's \<^verbatim>\<open>nil\<close> function (the handler of a declaration made by
  \<^verbatim>\<open>Remove\<close>), and likewise for the \<^verbatim>\<open>match\<close> predicate.  The back reference
  \<^verbatim>\<open>processor\<close> is not a field here: a state below holds one processor together
  with the callback objects that point to it.
\<close>

record ('db, 'h) callback =
  name :: string
  before :: string
  after :: string
  remove :: bool
  replace :: bool
  match :: "('db \<Rightarrow> bool) option"
  handler :: "'h option"

text \<open>
  A processor keeps pointers to its declarations (\<^verbatim>\<open>[]*callback\<close>), and the resolver
  writes through them.  Pointers are addresses into a store of callback objects.
\<close>

type_synonym addr = nat

type_synonym ('db, 'h) heap = "addr \<Rightarrow> ('db, 'h) callback"

text \<open>\<^verbatim>\<open>fmt.Errorf("conflicting callback %v with before %v", x, y)\<close>\<close>

datatype error = Conflicting string string

text \<open>The messages sent to \<^verbatim>\<open>logger.Default\<close>, without the source position.\<close>

datatype log_event =
    WarnRemoving string
  | InfoReplacing string
  | WarnDuplicated string
  | ErrorCompile error

text \<open>
  A Go call either returns or panics; a call that does neither (unbounded recursion) is the
  value \<open>None\<close> of the fuel-indexed functions below.
\<close>

datatype 'a outcome = Returned 'a | Panicked

subsection \<open>getRIndex\<close>

text \<open>
  \<^verbatim>\<open>for i := len(strs) - 1; i >= 0; i-- { if strs[i] == str { return i } }; return -1\<close>.
  The counter of the model is \<open>i + 1\<close>.
\<close>

fun getRIndex_from :: "string list \<Rightarrow> string \<Rightarrow> nat \<Rightarrow> int" where
  "getRIndex_from strs str 0 = - 1"
| "getRIndex_from strs str (Suc i) =
     (if strs ! i = str then int i else getRIndex_from strs str i)"

definition getRIndex :: "string list \<Rightarrow> string \<Rightarrow> int" where
  "getRIndex strs str = getRIndex_from strs str (length strs)"

subsection \<open>sortCallbacks\<close>

text \<open>
  The first loop of \<^verbatim>\<open>sortCallbacks\<close>: it collects the names in declaration order and
  warns about a name that is already there, unless the new declaration replaces or removes, or
  the declaration found at that index is a removal.
\<close>

fun collectNames ::
  "('db, 'h) heap \<Rightarrow> addr list \<Rightarrow> addr list \<Rightarrow> string list \<Rightarrow> log_event list
     \<Rightarrow> string list \<times> log_event list" where
  "collectNames h cs [] names lg = (names, lg)"
| "collectNames h cs (c # rest) names lg =
     (let idx = getRIndex names (name (h c));
          lg' = (if idx > - 1 \<and> \<not> replace (h c) \<and> \<not> remove (h c) \<and> \<not> remove (h (cs ! nat idx))
                 then lg @ [WarnDuplicated (name (h c))] else lg)
      in collectNames h cs rest (names @ [name (h c)]) lg')"

text \<open>
  The closure \<^verbatim>\<open>sortCallback\<close>.  Its state is the store (it assigns to
  \<^verbatim>\<open>cs[idx].after\<close> and \<^verbatim>\<open>after.before\<close>) and the captured slice \<^verbatim>\<open>sorted\<close>.
  The result is the store and either the error returned or the new \<^verbatim>\<open>sorted\<close>.

  \<open>sortBefore\<close> is the block \<^verbatim>\<open>if c.before != "" { ... }\<close>.
\<close>

definition sortBefore ::
  "addr list \<Rightarrow> string list \<Rightarrow> addr \<Rightarrow> ('db, 'h) heap \<Rightarrow> string list
     \<Rightarrow> ('db, 'h) heap \<times> (error + string list)" where
  "sortBefore cs names c h sortd =
     (if before (h c) \<noteq> [] then
        (let sortedIdx = getRIndex sortd (before (h c)) in
         if sortedIdx \<noteq> - 1 then
           (let curIdx = getRIndex sortd (name (h c)) in
            if curIdx = - 1 then
              (h, Inr (take (nat sortedIdx) sortd @ [name (h c)] @ drop (nat sortedIdx) sortd))
            else if curIdx > sortedIdx then
              (h, Inl (Conflicting (name (h c)) (before (h c))))
            else (h, Inr sortd))
         else
           (let idx = getRIndex names (before (h c)) in
            if idx \<noteq> - 1 then
              (h (cs ! nat idx := (h (cs ! nat idx)) \<lparr> after := name (h c) \<rparr>), Inr sortd)
            else (h, Inr sortd)))
      else (h, Inr sortd))"

text \<open>The end of the closure: \<^verbatim>\<open>if getRIndex(sorted, c.name) == -1 { sorted = append(sorted, c.name) }; return nil\<close>.\<close>

definition sortLast ::
  "addr \<Rightarrow> ('db, 'h) heap \<Rightarrow> string list \<Rightarrow> ('db, 'h) heap \<times> (error + string list)" where
  "sortLast c h sortd =
     (if getRIndex sortd (name (h c)) = - 1 then (h, Inr (sortd @ [name (h c)]))
      else (h, Inr sortd))"

fun sortCallback ::
  "nat \<Rightarrow> addr list \<Rightarrow> string list \<Rightarrow> addr \<Rightarrow> ('db, 'h) heap \<Rightarrow> string list
     \<Rightarrow> (('db, 'h) heap \<times> (error + string list)) option" where
  "sortCallback 0 cs names c h sortd = None"
| "sortCallback (Suc fuel) cs names c h sortd =
     (case sortBefore cs names c h sortd of
        (h1, Inl err) \<Rightarrow> Some (h1, Inl err)
      | (h1, Inr sorted1) \<Rightarrow>
          if after (h1 c) \<noteq> [] then
            (let sortedIdx = getRIndex sorted1 (after (h1 c)) in
             if sortedIdx \<noteq> - 1 then
               (let curIdx = getRIndex sorted1 (name (h1 c)) in
                if curIdx = - 1 then Some (sortLast c h1 (sorted1 @ [name (h1 c)]))
                else if curIdx < sortedIdx then
                  Some (h1, Inl (Conflicting (name (h1 c)) (after (h1 c))))
                else Some (sortLast c h1 sorted1))
             else
               (let idx = getRIndex names (after (h1 c)) in
                if idx \<noteq> - 1 then
                  (let a = cs ! nat idx;
                       h2 = (if before (h1 a) = [] then h1 (a := (h1 a) \<lparr> before := name (h1 c) \<rparr>)
                             else h1)
                   in case sortCallback fuel cs names a h2 sorted1 of
                        None \<Rightarrow> None
                      | Some (h3, Inl err) \<Rightarrow> Some (h3, Inl err)
                      | Some (h3, Inr sorted3) \<Rightarrow>
                          (case sortCallback fuel cs names c h3 sorted3 of
                             None \<Rightarrow> None
                           | Some (h4, Inl err) \<Rightarrow> Some (h4, Inl err)
                           | Some (h4, Inr sorted4) \<Rightarrow> Some (sortLast c h4 sorted4)))
                else Some (sortLast c h1 sorted1)))
          else Some (sortLast c h1 sorted1))"

text \<open>The second loop: \<^verbatim>\<open>for _, c := range cs { if err = sortCallback(c); err != nil { return } }\<close>.\<close>

fun sortAll ::
  "nat \<Rightarrow> addr list \<Rightarrow> string list \<Rightarrow> addr list \<Rightarrow> ('db, 'h) heap \<Rightarrow> string list
     \<Rightarrow> (('db, 'h) heap \<times> (error + string list)) option" where
  "sortAll fuel cs names [] h sortd = Some (h, Inr sortd)"
| "sortAll fuel cs names (c # rest) h sortd =
     (case sortCallback fuel cs names c h sortd of
        None \<Rightarrow> None
      | Some (h', Inl err) \<Rightarrow> Some (h', Inl err)
      | Some (h', Inr sortd') \<Rightarrow> sortAll fuel cs names rest h' sortd')"

text \<open>
  The third loop: the handler of a sorted name is read from the declaration at the name's
  rightmost index; \<^verbatim>\<open>cs[idx]\<close> panics when the index is \<open>-1\<close>.
\<close>

fun collectFns ::
  "('db, 'h) heap \<Rightarrow> addr list \<Rightarrow> string list \<Rightarrow> string list \<Rightarrow> 'h option list
     \<Rightarrow> 'h option list outcome" where
  "collectFns h cs names [] fns = Returned fns"
| "collectFns h cs names (n # rest) fns =
     (let idx = getRIndex names n in
      if idx < 0 \<or> idx \<ge> int (length cs) then Panicked
      else if \<not> remove (h (cs ! nat idx)) then
        collectFns h cs names rest (fns @ [handler (h (cs ! nat idx))])
      else collectFns h cs names rest fns)"

text \<open>
  \<^verbatim>\<open>sortCallbacks\<close> returns \<^verbatim>\<open>(fns, err)\<close>; the model adds the store it leaves behind and
  the warnings it logged.  On an error \<^verbatim>\<open>fns\<close> is still \<^verbatim>\<open>nil\<close>.
\<close>

definition sortCallbacks ::
  "nat \<Rightarrow> ('db, 'h) heap \<Rightarrow> addr list
     \<Rightarrow> (('db, 'h) heap \<times> log_event list \<times> 'h option list \<times> error option) outcome option" where
  "sortCallbacks fuel h cs =
     (case collectNames h cs cs [] [] of (names, lg) \<Rightarrow>
        (case sortAll fuel cs names cs h [] of
           None \<Rightarrow> None
         | Some (h', Inl err) \<Rightarrow> Some (Returned (h', lg, [], Some err))
         | Some (h', Inr sortd) \<Rightarrow>
             (case collectFns h' cs names sortd [] of
                Panicked \<Rightarrow> Some Panicked
              | Returned fns \<Rightarrow> Some (Returned (h', lg, fns, None)))))"


section \<open>The processor\<close>

record ('db, 'h) processor =
  db :: 'db
  fns :: "'h option list"
  callbacks :: "addr list"

text \<open>
  A state: the store of callback objects with the next address that \<^verbatim>\<open>&callback{...}\<close>
  will use, one processor, and what \<^verbatim>\<open>logger.Default\<close> has received.
\<close>

record ('db, 'h) state =
  store :: "('db, 'h) heap"
  fresh :: addr
  proc :: "('db, 'h) processor"
  logged :: "log_event list"

text \<open>The zero value of \<^verbatim>\<open>callback\<close>.\<close>

definition zeroCallback :: "('db, 'h) callback" where
  "zeroCallback =
     \<lparr> name = [], before = [], after = [], remove = False, replace = False,
       match = None, handler = None \<rparr>"

text \<open>\<^verbatim>\<open>&callback{...}\<close>: a new object at the next address.\<close>

definition newCallback ::
  "('db, 'h) callback \<Rightarrow> ('db, 'h) state \<Rightarrow> addr \<times> ('db, 'h) state" where
  "newCallback v s = (fresh s, s \<lparr> store := (store s) (fresh s := v), fresh := Suc (fresh s) \<rparr>)"

text \<open>
  \<^verbatim>\<open>compile\<close> builds the slice of the declarations whose \<^verbatim>\<open>match\<close> is nil or holds of
  \<^verbatim>\<open>p.db\<close>, and then sorts \<^verbatim>\<open>p.callbacks\<close>.  The assignment
  \<^verbatim>\<open>p.fns, err = sortCallbacks(p.callbacks)\<close> is made whatever \<^verbatim>\<open>err\<close> is.
\<close>

definition compile ::
  "nat \<Rightarrow> ('db, 'h) state \<Rightarrow> (('db, 'h) state \<times> error option) outcome option" where
  "compile fuel s =
     (let p = proc s;
          callbacks' = filter (\<lambda>c. case match (store s c) of None \<Rightarrow> True | Some m \<Rightarrow> m (db p))
                         (callbacks p)
      in case sortCallbacks fuel (store s) (callbacks p) of
           None \<Rightarrow> None
         | Some Panicked \<Rightarrow> Some Panicked
         | Some (Returned (h', lg, fns', err)) \<Rightarrow>
             Some (Returned
               (s \<lparr> store := h',
                    proc := p \<lparr> fns := fns' \<rparr>,
                    logged := logged s @ lg @
                      (case err of None \<Rightarrow> [] | Some e \<Rightarrow> [ErrorCompile e]) \<rparr>,
                err)))"

subsection \<open>The builder: methods of callback\<close>

definition callback_Before :: "addr \<Rightarrow> string \<Rightarrow> ('db, 'h) state \<Rightarrow> ('db, 'h) state" where
  "callback_Before c nm s = s \<lparr> store := (store s) (c := (store s c) \<lparr> before := nm \<rparr>) \<rparr>"

definition callback_After :: "addr \<Rightarrow> string \<Rightarrow> ('db, 'h) state \<Rightarrow> ('db, 'h) state" where
  "callback_After c nm s = s \<lparr> store := (store s) (c := (store s c) \<lparr> after := nm \<rparr>) \<rparr>"

definition appendCallback :: "addr \<Rightarrow> ('db, 'h) state \<Rightarrow> ('db, 'h) state" where
  "appendCallback c s = s \<lparr> proc := (proc s) \<lparr> callbacks := callbacks (proc s) @ [c] \<rparr> \<rparr>"

definition callback_Register ::
  "nat \<Rightarrow> addr \<Rightarrow> string \<Rightarrow> 'h option \<Rightarrow> ('db, 'h) state
     \<Rightarrow> (('db, 'h) state \<times> error option) outcome option" where
  "callback_Register fuel c nm fn s =
     compile fuel
       (appendCallback c
         (s \<lparr> store := (store s) (c := (store s c) \<lparr> name := nm, handler := fn \<rparr>) \<rparr>))"

definition callback_Remove ::
  "nat \<Rightarrow> addr \<Rightarrow> string \<Rightarrow> ('db, 'h) state
     \<Rightarrow> (('db, 'h) state \<times> error option) outcome option" where
  "callback_Remove fuel c nm s =
     compile fuel
       (appendCallback c
         (s \<lparr> logged := logged s @ [WarnRemoving nm],
              store := (store s) (c := (store s c) \<lparr> name := nm, remove := True \<rparr>) \<rparr>))"

definition callback_Replace ::
  "nat \<Rightarrow> addr \<Rightarrow> string \<Rightarrow> 'h option \<Rightarrow> ('db, 'h) state
     \<Rightarrow> (('db, 'h) state \<times> error option) outcome option" where
  "callback_Replace fuel c nm fn s =
     compile fuel
       (appendCallback c
         (s \<lparr> logged := logged s @ [InfoReplacing nm],
              store := (store s)
                (c := (store s c) \<lparr> name := nm, handler := fn, replace := True \<rparr>) \<rparr>))"

subsection \<open>Methods of processor\<close>

definition processor_Before :: "string \<Rightarrow> ('db, 'h) state \<Rightarrow> addr \<times> ('db, 'h) state" where
  "processor_Before nm s = newCallback (zeroCallback \<lparr> before := nm \<rparr>) s"

definition processor_After :: "string \<Rightarrow> ('db, 'h) state \<Rightarrow> addr \<times> ('db, 'h) state" where
  "processor_After nm s = newCallback (zeroCallback \<lparr> after := nm \<rparr>) s"

definition processor_Match ::
  "('db \<Rightarrow> bool) option \<Rightarrow> ('db, 'h) state \<Rightarrow> addr \<times> ('db, 'h) state" where
  "processor_Match fc s = newCallback (zeroCallback \<lparr> match := fc \<rparr>) s"

definition processor_Register ::
  "nat \<Rightarrow> string \<Rightarrow> 'h option \<Rightarrow> ('db, 'h) state
     \<Rightarrow> (('db, 'h) state \<times> error option) outcome option" where
  "processor_Register fuel nm fn s =
     (case newCallback zeroCallback s of (c, s') \<Rightarrow> callback_Register fuel c nm fn s')"

definition processor_Remove ::
  "nat \<Rightarrow> string \<Rightarrow> ('db, 'h) state \<Rightarrow> (('db, 'h) state \<times> error option) outcome option" where
  "processor_Remove fuel nm s =
     (case newCallback zeroCallback s of (c, s') \<Rightarrow> callback_Remove fuel c nm s')"

definition processor_Replace ::
  "nat \<Rightarrow> string \<Rightarrow> 'h option \<Rightarrow> ('db, 'h) state
     \<Rightarrow> (('db, 'h) state \<times> error option) outcome option" where
  "processor_Replace fuel nm fn s =
     (case newCallback zeroCallback s of (c, s') \<Rightarrow> callback_Replace fuel c nm fn s')"

text \<open>
  \<^verbatim>\<open>Get\<close>: from the newest declaration to the oldest, the handler of the first one with
  this name that is not itself a removal; \<^verbatim>\<open>nil\<close> when there is none.
\<close>

fun Get_from :: "('db, 'h) heap \<Rightarrow> addr list \<Rightarrow> string \<Rightarrow> nat \<Rightarrow> 'h option" where
  "Get_from h cbs nm 0 = None"
| "Get_from h cbs nm (Suc i) =
     (if name (h (cbs ! i)) = nm \<and> \<not> remove (h (cbs ! i)) then handler (h (cbs ! i))
      else Get_from h cbs nm i)"

definition Get :: "('db, 'h) state \<Rightarrow> string \<Rightarrow> 'h option" where
  "Get s nm = Get_from (store s) (callbacks (proc s)) nm (length (callbacks (proc s)))"

text \<open>A processor as \<^verbatim>\<open>initializeCallbacks\<close> makes it: \<^verbatim>\<open>&processor{db: db}\<close>.\<close>

definition initState :: "'db \<Rightarrow> ('db, 'h) state" where
  "initState d =
     \<lparr> store = (\<lambda>_. zeroCallback), fresh = 0,
       proc = \<lparr> db = d, fns = [], callbacks = [] \<rparr>, logged = [] \<rparr>"


section \<open>Execute\<close>

text \<open>
  The errors of a call.  \<^verbatim>\<open>errors.Is(err, schema.ErrUnsupportedDataType)\<close> follows the
  chain of wrapped errors down to the sentinel.
\<close>

datatype call_error = ErrUnsupportedDataType | ErrOther string | ErrWrap string call_error

fun isUnsupportedDataType :: "call_error \<Rightarrow> bool" where
  "isUnsupportedDataType ErrUnsupportedDataType = True"
| "isUnsupportedDataType (ErrOther m) = False"
| "isUnsupportedDataType (ErrWrap m e) = isUnsupportedDataType e"

text \<open>
  The fields of \<^verbatim>\<open>Statement\<close> and \<^verbatim>\<open>DB\<close> that \<^verbatim>\<open>Execute\<close> touches.  Values of
  \<^verbatim>\<open>interface{}\<close> are of an arbitrary type \<open>'v\<close>, \<open>None\<close> is \<^verbatim>\<open>nil\<close>.  An error slot
  holds the errors accumulated so far, \<open>[]\<close> is \<^verbatim>\<open>nil\<close>.  \<open>Trace\<close> is what
  \<^verbatim>\<open>db.Logger.Trace\<close> has received: the start time, the explained SQL, the rows affected
  and the error.
\<close>

record 'v statement =
  Model :: "'v option"
  Dest :: "'v option"
  Table :: string
  ReflectValue :: "'v option"
  Error :: "call_error list"
  RowsAffected :: int
  SQL :: string
  Vars :: "'v list"

record 'v DB =
  Statement :: "'v statement option"
  dbError :: "call_error list"
  dbRowsAffected :: int
  Trace :: "(nat \<times> string \<times> int \<times> call_error list) list"

text \<open>
  The collaborators of \<^verbatim>\<open>Execute\<close> that are not part of these sources:
  \<^verbatim>\<open>stmt.Parse\<close>, which may change the statement (its table name) and may fail,
  \<^verbatim>\<open>reflect.Indirect(reflect.ValueOf(.))\<close> and \<^verbatim>\<open>db.Dialector.Explain\<close>.
\<close>

record 'v collaborators =
  Parse :: "'v \<Rightarrow> 'v statement \<Rightarrow> 'v statement \<times> call_error option"
  Indirect :: "'v option \<Rightarrow> 'v option"
  Explain :: "string \<Rightarrow> 'v list \<Rightarrow> string"

text \<open>
  Modelled from the spec: \<^verbatim>\<open>db.AddError\<close> is not in the sources; the specification has
  it surface the error ``to the call's error accumulator'', which is the error of the
  statement that \<^verbatim>\<open>Execute\<close> copies to \<^verbatim>\<open>db.Error\<close> at its end.
\<close>

definition AddError :: "call_error \<Rightarrow> 'v statement \<Rightarrow> 'v statement" where
  "AddError err stmt = stmt \<lparr> Error := Error stmt @ [err] \<rparr>"

text \<open>The first block of \<^verbatim>\<open>Execute\<close>: \<^verbatim>\<open>if stmt := db.Statement; stmt != nil { ... }\<close>.\<close>

definition Execute_prepare :: "'v collaborators \<Rightarrow> 'v DB \<Rightarrow> 'v DB" where
  "Execute_prepare env d =
     (case Statement d of
        None \<Rightarrow> d
      | Some stmt \<Rightarrow>
          (let stmt1 = (if Model stmt = None then stmt \<lparr> Model := Dest stmt \<rparr> else stmt);
               stmt2 =
                 (case Model stmt1 of
                    None \<Rightarrow> stmt1
                  | Some m \<Rightarrow>
                      (case Parse env m stmt1 of
                         (stmt', None) \<Rightarrow> stmt'
                       | (stmt', Some err) \<Rightarrow>
                           if \<not> isUnsupportedDataType err \<or> Table stmt' = [] then AddError err stmt'
                           else stmt'))
           in d \<lparr> Statement := Some (stmt2 \<lparr> ReflectValue := Indirect env (Dest stmt2) \<rparr>) \<rparr>))"

text \<open>
  \<^verbatim>\<open>for _, f := range p.fns { f(db) }\<close>.  A handler is a function on the call context;
  calling a \<^verbatim>\<open>nil\<close> function panics.
\<close>

fun callFns :: "('d \<Rightarrow> 'd) option list \<Rightarrow> 'd \<Rightarrow> 'd outcome" where
  "callFns [] d = Returned d"
| "callFns (None # fs) d = Panicked"
| "callFns (Some f # fs) d = callFns fs (f d)"

text \<open>The last block: \<^verbatim>\<open>db.Statement\<close> is read again after the handlers have run.\<close>

definition Execute_finish :: "'v collaborators \<Rightarrow> nat \<Rightarrow> 'v DB \<Rightarrow> 'v DB" where
  "Execute_finish env curTime d =
     (case Statement d of
        None \<Rightarrow> d
      | Some stmt \<Rightarrow>
          d \<lparr> dbError := Error stmt,
              dbRowsAffected := RowsAffected stmt,
              Trace := Trace d @
                [(curTime, Explain env (SQL stmt) (Vars stmt), RowsAffected stmt, Error stmt)] \<rparr>)"

definition Execute ::
  "'v collaborators \<Rightarrow> nat \<Rightarrow> ('db, 'v DB \<Rightarrow> 'v DB) processor \<Rightarrow> 'v DB \<Rightarrow> 'v DB outcome" where
  "Execute env curTime p d =
     (case callFns (fns p) (Execute_prepare env d) of
        Panicked \<Rightarrow> Panicked
      | Returned d' \<Rightarrow> Returned (Execute_finish env curTime d'))"


section \<open>Predicates used in the proofs\<close>

text \<open>
  Two declarations at the addresses 0 and 1, \<open>a\<close> after \<open>b\<close> and \<open>b\<close> after \<open>a\<close>.  The
  \<^verbatim>\<open>before\<close> fields are what the resolver itself may have written into them.
\<close>

definition mutualAfter :: "('db, 'h) heap \<Rightarrow> bool" where
  "mutualAfter h \<longleftrightarrow>
     name (h 0) = ''a'' \<and> name (h (Suc 0)) = ''b'' \<and>
     after (h 0) = ''b'' \<and> after (h (Suc 0)) = ''a'' \<and>
     (before (h 0) = [] \<or> before (h 0) = ''b'') \<and>
     (before (h (Suc 0)) = [] \<or> before (h (Suc 0)) = ''a'')"




section \<open>Concrete processors and calls\<close>

text \<open>
  A processor after \<^verbatim>\<open>Register("a", h1)\<close>, and after \<^verbatim>\<open>Register("b", h2)\<close> as well;
  the handlers are the numbers 1, 2, ...
\<close>

definition onePlain :: "(unit, nat) state" where
  "onePlain =
     \<lparr> store = (\<lambda>_. zeroCallback) (0 := zeroCallback \<lparr> name := ''a'', handler := Some 1 \<rparr>),
       fresh = Suc 0,
       proc = \<lparr> db = (), fns = [Some 1], callbacks = [0] \<rparr>,
       logged = [] \<rparr>"

definition twoPlain :: "(unit, nat) state" where
  "twoPlain =
     \<lparr> store = (\<lambda>_. zeroCallback)
         (0 := zeroCallback \<lparr> name := ''a'', handler := Some 1 \<rparr>,
          Suc 0 := zeroCallback \<lparr> name := ''b'', handler := Some 2 \<rparr>),
       fresh = Suc (Suc 0),
       proc = \<lparr> db = (), fns = [Some 1, Some 2], callbacks = [0, Suc 0] \<rparr>,
       logged = [] \<rparr>"

text \<open>
  Collaborators whose \<^verbatim>\<open>Parse\<close> always fails with the given error, a statement with a
  destination and the table name \<open>users\<close>, and a call context without a statement.
\<close>

definition failingParse :: "call_error \<Rightarrow> unit collaborators" where
  "failingParse e =
     \<lparr> Parse = (\<lambda>m st. (st, Some e)), Indirect = (\<lambda>v. v), Explain = (\<lambda>q vs. q) \<rparr>"

definition usersStatement :: "unit statement" where
  "usersStatement =
     \<lparr> Model = None, Dest = Some (), Table = ''users'', ReflectValue = None, Error = [],
       RowsAffected = 7, SQL = ''SELECT'', Vars = [] \<rparr>"

definition noStatement :: "unit DB" where
  "noStatement = \<lparr> Statement = None, dbError = [], dbRowsAffected = 0, Trace = [] \<rparr>"

section \<open>Evaluation\<close>

lemmas api_defs =
  processor_Register_def processor_Remove_def processor_Replace_def
  processor_Before_def processor_After_def processor_Match_def
  callback_Register_def callback_Remove_def callback_Replace_def
  callback_Before_def callback_After_def
  newCallback_def appendCallback_def zeroCallback_def initState_def
  compile_def sortCallbacks_def getRIndex_def sortBefore_def sortLast_def Get_def

section \<open>Mutual after constraints: the resolver does not return\<close>

lemma mutualAfterD:
  assumes "mutualAfter h"
  shows "name (h 0) = ''a''" "name (h (Suc 0)) = ''b''" "after (h 0) = ''b''" "after (h (Suc 0)) = ''a''"
    "before (h 0) = [] \<or> before (h 0) = ''b''" "before (h (Suc 0)) = [] \<or> before (h (Suc 0)) = ''a''"
  using assms unfolding mutualAfter_def by blast+

lemma getRIndex_ab: "getRIndex [''a'', ''b''] ''a'' = 0" "getRIndex [''a'', ''b''] ''b'' = 1"
  "getRIndex [] x = - 1"
  by (simp_all add: getRIndex_def)

lemma mutualAfter_upd_after0: "mutualAfter h \<Longrightarrow> mutualAfter (h (0 := (h 0) \<lparr> after := ''b'' \<rparr>))"
  unfolding mutualAfter_def by simp

lemma mutualAfter_upd_after1: "mutualAfter h \<Longrightarrow> mutualAfter (h (Suc 0 := (h (Suc 0)) \<lparr> after := ''a'' \<rparr>))"
  unfolding mutualAfter_def by simp

lemma mutualAfter_upd_before0: "mutualAfter h \<Longrightarrow> mutualAfter (h (0 := (h 0) \<lparr> before := ''b'' \<rparr>))"
  unfolding mutualAfter_def by simp

lemma mutualAfter_upd_before1: "mutualAfter h \<Longrightarrow> mutualAfter (h (Suc 0 := (h (Suc 0)) \<lparr> before := ''a'' \<rparr>))"
  unfolding mutualAfter_def by simp

lemma sortBefore_mutualAfter0:
  assumes m: "mutualAfter h"
  shows "\<exists>h'. sortBefore [0, Suc 0] [''a'', ''b''] 0 h [] = (h', Inr []) \<and> mutualAfter h'"
proof (cases "before (h 0) = []")
  case True
  then show ?thesis using m by (simp add: sortBefore_def)
next
  case False
  with mutualAfterD(5) [OF m] have b: "before (h 0) = ''b''" by blast
  show ?thesis
    using mutualAfter_upd_after1 [OF m]
    by (simp add: sortBefore_def b getRIndex_ab mutualAfterD(1) [OF m])
qed

lemma sortBefore_mutualAfter1:
  assumes m: "mutualAfter h"
  shows "\<exists>h'. sortBefore [0, Suc 0] [''a'', ''b''] (Suc 0) h [] = (h', Inr []) \<and> mutualAfter h'"
proof (cases "before (h (Suc 0)) = []")
  case True
  then show ?thesis using m by (simp add: sortBefore_def)
next
  case False
  with mutualAfterD(6) [OF m] have b: "before (h (Suc 0)) = ''a''" by blast
  show ?thesis
    using mutualAfter_upd_after0 [OF m]
    by (simp add: sortBefore_def b getRIndex_ab mutualAfterD(2) [OF m])
qed

lemma sortCallback_mutualAfter:
  "mutualAfter h \<Longrightarrow> c = 0 \<or> c = Suc 0 \<Longrightarrow> sortCallback fuel [0, Suc 0] [''a'', ''b''] c h [] = None"
proof (induction fuel arbitrary: h c)
  case 0
  show ?case by simp
next
  case (Suc fuel)
  from Suc.prems(2) show ?case
  proof
    assume c: "c = 0"
    from sortBefore_mutualAfter0 [OF Suc.prems(1)]
    obtain h1 where b: "sortBefore [0, Suc 0] [''a'', ''b''] 0 h [] = (h1, Inr [])" and m1: "mutualAfter h1"
      by blast
    have r1: "sortCallback fuel [0, Suc 0] [''a'', ''b''] (Suc 0) h1 [] = None"
      by (rule Suc.IH [OF m1]) simp
    have r2: "sortCallback fuel [0, Suc 0] [''a'', ''b''] (Suc 0) (h1 (Suc 0 := (h1 (Suc 0)) \<lparr> before := ''a'' \<rparr>)) [] = None"
      by (rule Suc.IH [OF mutualAfter_upd_before1 [OF m1]]) simp
    show ?thesis
      unfolding c
      by (simp add: b mutualAfterD(1,3) [OF m1] getRIndex_ab r1 r2)
  next
    assume c: "c = Suc 0"
    from sortBefore_mutualAfter1 [OF Suc.prems(1)]
    obtain h1 where b: "sortBefore [0, Suc 0] [''a'', ''b''] (Suc 0) h [] = (h1, Inr [])" and m1: "mutualAfter h1"
      by blast
    have r1: "sortCallback fuel [0, Suc 0] [''a'', ''b''] 0 h1 [] = None"
      using Suc.IH [OF m1, of 0] by simp
    have r2: "sortCallback fuel [0, Suc 0] [''a'', ''b''] 0 (h1 (0 := (h1 0) \<lparr> before := ''b'' \<rparr>)) [] = None"
      by (rule Suc.IH [OF mutualAfter_upd_before0 [OF m1]]) simp
    show ?thesis
      unfolding c
      by (simp add: b mutualAfterD(2,4) [OF m1] getRIndex_ab r1 r2)
  qed
qed

lemma compile_mutualAfter:
  assumes m: "mutualAfter (store s)" and "callbacks (proc s) = [0, Suc 0]"
  shows "compile fuel s = None"
proof -
  obtain lg where n: "collectNames (store s) [0, Suc 0] [0, Suc 0] [] [] = ([''a'', ''b''], lg)"
    by (simp add: mutualAfterD(1,2) [OF m] Let_def)
  have r: "sortCallback fuel [0, Suc 0] [''a'', ''b''] 0 (store s) [] = None"
    by (rule sortCallback_mutualAfter [OF m]) simp
  have "sortCallbacks fuel (store s) [0, Suc 0] = None"
    by (simp add: sortCallbacks_def n r del: collectNames.simps)
  then show ?thesis by (simp add: compile_def assms(2))
qed

text \<open>
  C1 (the code does not do this).  The claim: on every declaration sequence
  \<^verbatim>\<open>sortCallbacks\<close> terminates, and a cycle of before/after constraints yields a conflict
  error.  What the code does: \<open>a\<close> is registered after \<open>b\<close>, which compiles, and then
  \<open>b\<close> is registered after \<open>a\<close>; whatever the recursion depth allowed, the second
  \<^verbatim>\<open>Register\<close> does not return, neither an error nor a handler list.
\<close>

theorem Register_mutual_after_diverges:
  "\<exists>s2.
     callback_Register (Suc k) (fst (processor_After ''b'' (initState d))) ''a'' f1
       (snd (processor_After ''b'' (initState d))) = Some (Returned (s2, None)) \<and>
     fns (proc s2) = [f1] \<and>
     (\<forall>fuel. callback_Register fuel (fst (processor_After ''a'' s2)) ''b'' f2
        (snd (processor_After ''a'' s2)) = None)"
proof -
  define s2 :: "('a, 'b) state" where "s2 =
    \<lparr> store = (\<lambda>_. zeroCallback)
        (0 := zeroCallback \<lparr> name := ''a'', after := ''b'', handler := f1 \<rparr>),
      fresh = Suc 0, proc = \<lparr> db = d, fns = [f1], callbacks = [0] \<rparr>, logged = [] \<rparr>"
  have 1: "callback_Register (Suc k) (fst (processor_After ''b'' (initState d))) ''a'' f1
        (snd (processor_After ''b'' (initState d))) = Some (Returned (s2, None))"
    by (simp add: api_defs s2_def)
  have 2: "callback_Register fuel (fst (processor_After ''a'' s2)) ''b'' f2
         (snd (processor_After ''a'' s2)) = None" for fuel
    unfolding callback_Register_def
    by (rule compile_mutualAfter)
       (simp_all add: mutualAfter_def s2_def processor_After_def newCallback_def
          appendCallback_def zeroCallback_def)
  have 3: "fns (proc s2) = [f1]" by (simp add: s2_def)
  from 1 2 3 show ?thesis by blast
qed


section \<open>compile\<close>


lemma twoPlain_reached:
  "processor_Register (Suc 0) ''b'' (Some 2) onePlain = Some (Returned (twoPlain, None))"
  by (simp add: api_defs onePlain_def twoPlain_def)

text \<open>
  C2 (the code does not do this).  The claim: a declaration whose \<^verbatim>\<open>match\<close> is false of
  the processor's database handle is not handed to the resolver, and its handler is not in
  the compiled list.  What the code does: a declaration made with a predicate that is false
  everywhere is registered on a new processor; \<^verbatim>\<open>compile\<close> sorts \<^verbatim>\<open>p.callbacks\<close>, not
  the filtered slice, and the handler is in the compiled list.
\<close>

theorem compile_ignores_match:
  "\<exists>s'.
     callback_Register (Suc k) (fst (processor_Match (Some (\<lambda>_. False)) (initState d))) nm fn
       (snd (processor_Match (Some (\<lambda>_. False)) (initState d))) = Some (Returned (s', None)) \<and>
     filter (\<lambda>c. case match (store s' c) of None \<Rightarrow> True | Some m \<Rightarrow> m (db (proc s')))
       (callbacks (proc s')) = [] \<and>
     fns (proc s') = [fn]"
  by (simp add: api_defs)







section \<open>The order that sortCallbacks produces\<close>

text \<open>
  C7 (the code does not do this).  The claim: when \<open>before = X\<close> and \<open>X\<close> is registered but
  not yet placed, \<open>X\<close>'s \<^verbatim>\<open>after\<close> is set to the current name only if it is empty, and an
  existing \<^verbatim>\<open>after\<close> is never overwritten.  What the code does: with \<open>A\<close> before \<open>X\<close>
  at address 0 and \<open>X\<close> after \<open>y\<close> at address 1, whatever \<open>y\<close> is, the block
  \<^verbatim>\<open>if c.before != ""\<close> run for \<open>A\<close> leaves \<open>X\<close> with \<^verbatim>\<open>after\<close> \<open>A\<close>.
\<close>

theorem sortBefore_overwrites_after:
  "sortBefore [0, Suc 0] [''A'', ''X''] 0
     ((\<lambda>_. zeroCallback)
        (0 := zeroCallback \<lparr> name := ''A'', before := ''X'', handler := hA \<rparr>,
         Suc 0 := zeroCallback \<lparr> name := ''X'', after := y, handler := hX \<rparr>)) [] =
   ((\<lambda>_. zeroCallback)
        (0 := zeroCallback \<lparr> name := ''A'', before := ''X'', handler := hA \<rparr>,
         Suc 0 := zeroCallback \<lparr> name := ''X'', after := ''A'', handler := hX \<rparr>), Inr [])"
  by (simp add: sortBefore_def getRIndex_def zeroCallback_def)

text \<open>
  C4 (the code does not do this).  The claim: when \<^verbatim>\<open>sortCallbacks\<close> succeeds, a
  declaration with \<open>after = B\<close> has its handler after \<open>B\<close>'s.  What the code does:
  \<^verbatim>\<open>Before("X").Register("A", hA)\<close>, \<^verbatim>\<open>After("Y").Register("X", hX)\<close> and
  \<^verbatim>\<open>Register("Y", hY)\<close> all succeed, and the compiled list has \<open>hX\<close> before \<open>hY\<close>:
  the \<^verbatim>\<open>after\<close> of \<open>X\<close> is no longer \<open>Y\<close> but \<open>A\<close>.
\<close>

theorem sortCallbacks_after_violated:
  "\<exists>s1 s2 s3.
     callback_Register (Suc k) (fst (processor_Before ''X'' (initState d))) ''A'' hA
       (snd (processor_Before ''X'' (initState d))) = Some (Returned (s1, None)) \<and>
     callback_Register (Suc k) (fst (processor_After ''Y'' s1)) ''X'' hX
       (snd (processor_After ''Y'' s1)) = Some (Returned (s2, None)) \<and>
     processor_Register (Suc k) ''Y'' hY s2 = Some (Returned (s3, None)) \<and>
     map (name \<circ> store s3) (callbacks (proc s3)) = [''A'', ''X'', ''Y''] \<and>
     map (after \<circ> store s3) (callbacks (proc s3)) = [[], ''A'', []] \<and>
     fns (proc s3) = [hA, hX, hY]"
  by (simp add: api_defs)

text \<open>
  C9 (the code does not do this).  The claim: compiling an unchanged declaration sequence
  again gives the same handler order.  What the code does: after
  \<^verbatim>\<open>After("Y").Register("D", hD)\<close>, \<^verbatim>\<open>Before("ghost").After("C").Register("Y", hY)\<close>
  and \<^verbatim>\<open>Before("D").Register("C", hC)\<close> the compiled list is \<open>[hC, hY, hD]\<close>; that
  compilation has rewritten \<open>D\<close>'s \<^verbatim>\<open>after\<close> from \<open>Y\<close> to \<open>C\<close>, and compiling once more,
  with no declaration added, gives \<open>[hC, hD, hY]\<close>.
\<close>

theorem compile_twice_differs:
  "\<exists>s1 s2 s3 s4.
     callback_Register (Suc (Suc (Suc k))) (fst (processor_After ''Y'' (initState d))) ''D'' hD
       (snd (processor_After ''Y'' (initState d))) = Some (Returned (s1, None)) \<and>
     callback_Register (Suc (Suc (Suc k))) (fst (processor_Before ''ghost'' s1)) ''Y'' hY
       (callback_After (fst (processor_Before ''ghost'' s1)) ''C''
          (snd (processor_Before ''ghost'' s1))) = Some (Returned (s2, None)) \<and>
     callback_Register (Suc (Suc (Suc k))) (fst (processor_Before ''D'' s2)) ''C'' hC
       (snd (processor_Before ''D'' s2)) = Some (Returned (s3, None)) \<and>
     map (name \<circ> store s2) (callbacks (proc s2)) = [''D'', ''Y''] \<and>
     map (after \<circ> store s2) (callbacks (proc s2)) = [''Y'', ''C''] \<and>
     map (name \<circ> store s3) (callbacks (proc s3)) = [''D'', ''Y'', ''C''] \<and>
     map (after \<circ> store s3) (callbacks (proc s3)) = [''C'', ''C'', []] \<and>
     fns (proc s3) = [hC, hY, hD] \<and>
     compile (Suc (Suc (Suc k))) s3 = Some (Returned (s4, None)) \<and>
     callbacks (proc s4) = callbacks (proc s3) \<and>
     fns (proc s4) = [hC, hD, hY]"
  by (simp add: api_defs)

section \<open>Declarations without before or after\<close>





















section \<open>Registering a name twice, and removing it\<close>




text \<open>
  C8 (the code does not do this).  The claim: after \<^verbatim>\<open>Remove(name)\<close>, \<^verbatim>\<open>Get(name)\<close>
  returns no handler.  What the code does: after \<^verbatim>\<open>Register(nm, f)\<close> and
  \<^verbatim>\<open>Remove(nm)\<close> the compiled list is empty, the earlier declaration is as it was, and
  \<^verbatim>\<open>Get(nm)\<close> skips the removal and returns \<open>f\<close>.
\<close>

theorem Get_after_Remove:
  "\<exists>s1 s2.
     processor_Register (Suc k) nm (Some f) (initState d) = Some (Returned (s1, None)) \<and>
     processor_Remove (Suc k) nm s1 = Some (Returned (s2, None)) \<and>
     map (remove \<circ> store s2) (callbacks (proc s2)) = [False, True] \<and>
     fns (proc s2) = [] \<and>
     Get s2 nm = Some f"
  by (simp add: api_defs)

section \<open>What Execute does around the handlers\<close>

lemma callFns_map_Some: "callFns (map Some hs) d = Returned (foldl (\<lambda>x f. f x) d hs)"
  by (induction hs arbitrary: d) simp_all

text \<open>
  C5, as stated, fails: a parse failure that is not an unsupported-data-type error is added
  to the statement's error although the table name \<open>users\<close> is known, and with no handler
  to run it is the error of the call context when \<^verbatim>\<open>Execute\<close> returns.
\<close>

theorem Execute_other_parse_error_counterexample:
  "\<not> isUnsupportedDataType (ErrOther ''parse'') \<and>
   Table usersStatement = ''users'' \<and> Error usersStatement = [] \<and>
   (case Statement (Execute_prepare (failingParse (ErrOther ''parse''))
                      (noStatement \<lparr> Statement := Some usersStatement \<rparr>)) of
      Some st \<Rightarrow> Table st = ''users'' \<and> Error st = [ErrOther ''parse'']
    | None \<Rightarrow> False) \<and>
   (case Execute (failingParse (ErrOther ''parse'')) 3 \<lparr> db = (), fns = [], callbacks = [] \<rparr>
           (noStatement \<lparr> Statement := Some usersStatement \<rparr>) of
      Returned d' \<Rightarrow> dbError d' = [ErrOther ''parse'']
    | Panicked \<Rightarrow> False)"
  by (simp add: Execute_def Execute_prepare_def Execute_finish_def AddError_def Let_def
        failingParse_def noStatement_def usersStatement_def)

text \<open>
  C5, amended.  When \<^verbatim>\<open>Execute\<close> parses the model (the statement's, or its destination
  when it has none) and the parse fails, the error is added to the statement's error unless
  it is an unsupported-data-type error and the statement has a table name after the parse:
  a failure of any other class is added, whether or not a table name is known.  With no
  handler to run, the statement's error is the error of the call context when
  \<^verbatim>\<open>Execute\<close> returns.
\<close>

theorem Execute_parse_error_surfaced:
  assumes "Statement d = Some stmt"
    and "stmt1 = (if Model stmt = None then stmt \<lparr> Model := Dest stmt \<rparr> else stmt)"
    and "Model stmt1 = Some m"
    and "Parse env m stmt1 = (stmt', Some err)"
  shows "\<exists>st d'. Statement (Execute_prepare env d) = Some st \<and>
     Error st =
       (if isUnsupportedDataType err \<and> Table stmt' \<noteq> [] then Error stmt'
        else Error stmt' @ [err]) \<and>
     Execute env curTime (p \<lparr> fns := [] \<rparr>) d = Returned d' \<and> dbError d' = Error st"
  using assms
  by (simp add: Execute_def Execute_prepare_def Execute_finish_def AddError_def Let_def)

theorem Execute_parse_error_surfaced_witness:
  "(case Execute (failingParse ErrUnsupportedDataType) 3 \<lparr> db = (), fns = [], callbacks = [] \<rparr>
           (noStatement \<lparr> Statement := Some usersStatement \<rparr>) of
      Returned d' \<Rightarrow> dbError d' = []
    | Panicked \<Rightarrow> False) \<and>
   (case Execute (failingParse ErrUnsupportedDataType) 3 \<lparr> db = (), fns = [], callbacks = [] \<rparr>
           (noStatement \<lparr> Statement := Some (usersStatement \<lparr> Table := [] \<rparr>) \<rparr>) of
      Returned d' \<Rightarrow> dbError d' = [ErrUnsupportedDataType]
    | Panicked \<Rightarrow> False)"
  using
    Execute_parse_error_surfaced [of "noStatement \<lparr> Statement := Some usersStatement \<rparr>"
      usersStatement "usersStatement \<lparr> Model := Some () \<rparr>" "()"
      "failingParse ErrUnsupportedDataType" "usersStatement \<lparr> Model := Some () \<rparr>"
      ErrUnsupportedDataType 3 "\<lparr> db = (), fns = [], callbacks = [] \<rparr>"]
    Execute_parse_error_surfaced [of
      "noStatement \<lparr> Statement := Some (usersStatement \<lparr> Table := [] \<rparr>) \<rparr>"
      "usersStatement \<lparr> Table := [] \<rparr>" "usersStatement \<lparr> Table := [], Model := Some () \<rparr>" "()"
      "failingParse ErrUnsupportedDataType" "usersStatement \<lparr> Table := [], Model := Some () \<rparr>"
      ErrUnsupportedDataType 3 "\<lparr> db = (), fns = [], callbacks = [] \<rparr>"]
  by (auto simp: failingParse_def noStatement_def usersStatement_def)

text \<open>
  C10, as stated, fails: the statement is nil when \<^verbatim>\<open>Execute\<close> is called and the one
  handler installs a statement; the last block of \<^verbatim>\<open>Execute\<close> then copies that
  statement's error and rows-affected count to the call context and emits a trace record.
\<close>

theorem Execute_nil_Statement_counterexample:
  "Statement noStatement = None \<and>
   Execute (failingParse ErrUnsupportedDataType) 3
     \<lparr> db = (),
       fns = [Some (\<lambda>x. x \<lparr> Statement := Some (usersStatement \<lparr> Error := [ErrOther ''late''] \<rparr>) \<rparr>)],
       callbacks = [] \<rparr>
     noStatement =
   Returned
     \<lparr> Statement = Some (usersStatement \<lparr> Error := [ErrOther ''late''] \<rparr>),
       dbError = [ErrOther ''late''], dbRowsAffected = 7,
       Trace = [(3, ''SELECT'', 7, [ErrOther ''late''])] \<rparr>"
  by (simp add: Execute_def Execute_prepare_def Execute_finish_def noStatement_def
        usersStatement_def failingParse_def)

text \<open>
  C10, amended.  If the call context's statement is nil when \<^verbatim>\<open>Execute\<close> is called and
  no compiled handler is nil, then there is no model defaulting or parsing, and every
  compiled handler is invoked in order on the call context as it was given; if the statement
  is still nil after the handlers have run, what they leave is what \<^verbatim>\<open>Execute\<close> returns:
  no copy of error or rows-affected count, no trace record.
\<close>

theorem Execute_nil_Statement:
  assumes "Statement d = None" and "fns p = map Some hs"
  shows "Execute_prepare env d = d \<and>
     Execute env curTime p d =
       Returned (Execute_finish env curTime (foldl (\<lambda>x f. f x) d hs)) \<and>
     (Statement (foldl (\<lambda>x f. f x) d hs) = None \<longrightarrow>
        Execute env curTime p d = Returned (foldl (\<lambda>x f. f x) d hs))"
  using assms
  by (simp add: Execute_def Execute_prepare_def Execute_finish_def callFns_map_Some)

theorem Execute_nil_Statement_witness:
  "Statement noStatement = None \<and>
   Execute (failingParse ErrUnsupportedDataType) 3
     \<lparr> db = (),
       fns = [Some (\<lambda>x. x \<lparr> dbRowsAffected := 1 \<rparr>),
              Some (\<lambda>x. x \<lparr> dbRowsAffected := dbRowsAffected x + 1 \<rparr>)],
       callbacks = [] \<rparr>
     noStatement =
   Returned \<lparr> Statement = None, dbError = [], dbRowsAffected = 2, Trace = [] \<rparr>"
  using Execute_nil_Statement [of noStatement
     "\<lparr> db = (),
        fns = [Some (\<lambda>x. x \<lparr> dbRowsAffected := 1 \<rparr>),
               Some (\<lambda>x. x \<lparr> dbRowsAffected := dbRowsAffected x + 1 \<rparr>)],
        callbacks = [] \<rparr>"
     "[\<lambda>x. x \<lparr> dbRowsAffected := 1 \<rparr>, \<lambda>x. x \<lparr> dbRowsAffected := dbRowsAffected x + 1 \<rparr>]"
     "failingParse ErrUnsupportedDataType" 3]
  by (simp add: noStatement_def Execute_finish_def)

end
